theory Spec2Isabelle
  imports Main "HOL-Library.Multiset"
begin

section \<open>BugTracker API: the request handlers of main.py over an explicit database state\<close>

text \<open>
  The module main.py maps six HTTP endpoints onto SQL statements over two tables,
  \<open>bugs\<close> and \<open>bug_comments\<close>. The model passes the database explicitly: a handler
  takes the tables and the transaction time (what \<open>NOW()\<close> evaluates to in its
  statement) and returns the response together with the tables afterwards. A raised
  \<open>HTTPException\<close> and a rejected request body are values of the type \<open>error\<close>.

  A Python \<open>str\<close> is modelled as \<open>string\<close>, one list element for one character, so
  that \<open>length\<close> is the count that \<open>min_length\<close> and \<open>max_length\<close> compare.
\<close>

subsection \<open>Rows and tables\<close>

type_synonym timestamp = int

text \<open>
  A row of \<open>bugs\<close>, with the columns the statements name. The row mappings that
  SQLAlchemy returns may hold \<open>None\<close> in any text column (SQL \<open>NULL\<close>), so the four
  updatable columns and \<open>resolved_at\<close> are options.
\<close>

record bug =
  bug_id :: int
  title :: "string option"
  description :: "string option"
  priority :: "string option"
  status :: "string option"
  created_at :: timestamp
  updated_at :: timestamp
  resolved_at :: "timestamp option"

text \<open>
  A row of \<open>bug_comments\<close>. Its columns \<open>bug_id\<close>, \<open>comment\<close> and \<open>created_at\<close> carry
  the prefix \<open>comment_\<close> here, since \<open>bug_id\<close> and \<open>created_at\<close> already name columns
  of \<open>bugs\<close>.
\<close>

record comment =
  comment_id :: int
  comment_bug_id :: int
  author :: string
  comment_text :: string
  comment_created_at :: timestamp

text \<open>
  Modelled from the spec: the DDL of both tables is not part of the repository. The
  \<open>INSERT\<close> statements supply neither \<open>bug_id\<close> nor \<open>comment_id\<close>, so the
  identifier columns are filled by the table: here from the counters \<open>bugs_seq\<close> and
  \<open>bug_comments_seq\<close>, which only ever grow.
\<close>

record db =
  bugs :: "bug list"
  bug_comments :: "comment list"
  bugs_seq :: int
  bug_comments_seq :: int

definition init_db :: db where
  "init_db = \<lparr>bugs = [], bug_comments = [], bugs_seq = 1, bug_comments_seq = 1\<rparr>"

subsection \<open>Responses\<close>

text \<open>
  \<open>HTTPException status_code detail\<close> is the exception the handlers raise;
  \<open>RequestValidationError\<close> is FastAPI's rejection of a body that fails its Pydantic
  schema (status 422), raised before the handler runs; \<open>DatabaseError\<close> is an
  exception of the database driver, which no handler catches (status 500). A successful
  response is the pair of the status code and the body.
\<close>

datatype error = HTTPException nat string | RequestValidationError | DatabaseError


subsection \<open>Pydantic schemas\<close>

text \<open>
  A member of a JSON request body, as far as the schemas tell values apart: the key is
  absent, its value is \<open>null\<close>, it is a string, or it is some other JSON value.
\<close>

datatype json = Absent | JNull | JStr string | JOther

record body_bug =
  body_title :: json
  body_description :: json
  body_priority :: json
  body_status :: json

record body_comment =
  body_author :: json
  body_comment :: json

record BugCreate =
  bc_title :: string
  bc_description :: string
  bc_priority :: string
  bc_status :: string

record BugUpdate =
  bu_title :: "string option"
  bu_description :: "string option"
  bu_priority :: "string option"
  bu_status :: "string option"

record CommentCreate =
  cc_author :: string
  cc_comment :: string

text \<open>
  The two patterns, \<open>^(low|medium|high|critical)$\<close> and
  \<open>^(open|in_progress|closed)$\<close>. Both are anchored at the two ends of the string,
  so a string matches when it is one of the alternatives.
\<close>

definition priority_pattern :: "string \<Rightarrow> bool" where
  "priority_pattern s = (s \<in> set [''low'', ''medium'', ''high'', ''critical''])"

definition status_pattern :: "string \<Rightarrow> bool" where
  "status_pattern s = (s \<in> set [''open'', ''in_progress'', ''closed''])"

definition length_between :: "nat \<Rightarrow> nat \<Rightarrow> string \<Rightarrow> bool" where
  "length_between lo hi s = (lo \<le> length s \<and> length s \<le> hi)"

text \<open>
  A required field, \<open>Field(...)\<close> of type \<open>str\<close>: only a string that passes the
  constraint is accepted.
\<close>

fun required :: "(string \<Rightarrow> bool) \<Rightarrow> json \<Rightarrow> error + string" where
  "required ok (JStr s) = (if ok s then Inr s else Inl RequestValidationError)"
| "required ok j = Inl RequestValidationError"

text \<open>
  A field of type \<open>str\<close> with a default, \<open>Field("open", ...)\<close>: an absent key takes
  the default, which is not validated; \<open>null\<close> is not a \<open>str\<close>.
\<close>

fun defaulted :: "string \<Rightarrow> (string \<Rightarrow> bool) \<Rightarrow> json \<Rightarrow> error + string" where
  "defaulted d ok Absent = Inr d"
| "defaulted d ok (JStr s) = (if ok s then Inr s else Inl RequestValidationError)"
| "defaulted d ok j = Inl RequestValidationError"

text \<open>
  A field of type \<open>Optional[str]\<close> with default \<open>None\<close>: an absent key and \<open>null\<close>
  both give \<open>None\<close>; a string must pass the constraint.
\<close>

fun optional :: "(string \<Rightarrow> bool) \<Rightarrow> json \<Rightarrow> error + string option" where
  "optional ok Absent = Inr None"
| "optional ok JNull = Inr None"
| "optional ok (JStr s) = (if ok s then Inr (Some s) else Inl RequestValidationError)"
| "optional ok JOther = Inl RequestValidationError"

definition validate_BugCreate :: "body_bug \<Rightarrow> error + BugCreate" where
  "validate_BugCreate b =
     (case required (length_between 3 200) (body_title b) of
        Inl e \<Rightarrow> Inl e
      | Inr t \<Rightarrow>
     (case required (length_between 3 5000) (body_description b) of
        Inl e \<Rightarrow> Inl e
      | Inr d \<Rightarrow>
     (case required priority_pattern (body_priority b) of
        Inl e \<Rightarrow> Inl e
      | Inr p \<Rightarrow>
     (case defaulted ''open'' status_pattern (body_status b) of
        Inl e \<Rightarrow> Inl e
      | Inr s \<Rightarrow>
          Inr \<lparr>bc_title = t, bc_description = d, bc_priority = p, bc_status = s\<rparr>))))"

definition validate_BugUpdate :: "body_bug \<Rightarrow> error + BugUpdate" where
  "validate_BugUpdate b =
     (case optional (length_between 3 200) (body_title b) of
        Inl e \<Rightarrow> Inl e
      | Inr t \<Rightarrow>
     (case optional (length_between 3 5000) (body_description b) of
        Inl e \<Rightarrow> Inl e
      | Inr d \<Rightarrow>
     (case optional priority_pattern (body_priority b) of
        Inl e \<Rightarrow> Inl e
      | Inr p \<Rightarrow>
     (case optional status_pattern (body_status b) of
        Inl e \<Rightarrow> Inl e
      | Inr s \<Rightarrow>
          Inr \<lparr>bu_title = t, bu_description = d, bu_priority = p, bu_status = s\<rparr>))))"

definition validate_CommentCreate :: "body_comment \<Rightarrow> error + CommentCreate" where
  "validate_CommentCreate b =
     (case required (length_between 1 100) (body_author b) of
        Inl e \<Rightarrow> Inl e
      | Inr a \<Rightarrow>
     (case required (length_between 1 2000) (body_comment b) of
        Inl e \<Rightarrow> Inl e
      | Inr c \<Rightarrow> Inr \<lparr>cc_author = a, cc_comment = c\<rparr>))"

subsection \<open>Bugs\<close>

text \<open>\<open>GET /bugs\<close>: every row of \<open>bugs\<close>, \<open>ORDER BY bug_id DESC\<close>.\<close>

definition list_bugs :: "db \<Rightarrow> bug list" where
  "list_bugs d = sort_key (\<lambda>b. - bug_id b) (bugs d)"

text \<open>
  \<open>POST /bugs\<close>: one \<open>INSERT\<close>, whose three \<open>NOW()\<close> are the same transaction
  time; \<open>RETURNING\<close> gives the inserted row, the response's body with status 201.
\<close>

definition create_bug :: "BugCreate \<Rightarrow> timestamp \<Rightarrow> db \<Rightarrow> (error + nat \<times> bug) \<times> db" where
  "create_bug payload now d =
     (let row = \<lparr>bug_id = bugs_seq d,
                 title = Some (bc_title payload),
                 description = Some (bc_description payload),
                 priority = Some (bc_priority payload),
                 status = Some (bc_status payload),
                 created_at = now,
                 updated_at = now,
                 resolved_at = (if bc_status payload = ''closed'' then Some now else None)\<rparr>
      in (Inr (201, row), d\<lparr>bugs := bugs d @ [row], bugs_seq := bugs_seq d + 1\<rparr>))"

text \<open>\<open>GET /bugs/{bug_id}\<close>: the first row with that identifier, or 404.\<close>

definition get_bug :: "int \<Rightarrow> db \<Rightarrow> error + nat \<times> bug" where
  "get_bug i d =
     (case filter (\<lambda>b. bug_id b = i) (bugs d) of
        [] \<Rightarrow> Inl (HTTPException 404 ''Bug not found'')
      | row # _ \<Rightarrow> Inr (200, row))"


subsection \<open>The dynamic UPDATE of PATCH /bugs/{bug_id}\<close>

text \<open>
  \<open>payload.model_dump()\<close> is the dictionary of the four fields in their declaration
  order; \<open>exclude_none=True\<close> drops the items whose value is \<open>None\<close>.
\<close>

definition model_dump :: "BugUpdate \<Rightarrow> (string \<times> string option) list" where
  "model_dump payload =
     [(''title'', bu_title payload), (''description'', bu_description payload),
      (''priority'', bu_priority payload), (''status'', bu_status payload)]"

definition exclude_none :: "(string \<times> string option) list \<Rightarrow> (string \<times> string option) list" where
  "exclude_none items = filter (\<lambda>(key, value). value \<noteq> None) items"

text \<open>
  A bound parameter of a statement: the Python value passed for \<open>:name\<close>. \<open>None\<close> is
  sent as SQL \<open>NULL\<close>.
\<close>

datatype param = PInt int | PStr string | PNone

fun to_param :: "string option \<Rightarrow> param" where
  "to_param None = PNone"
| "to_param (Some s) = PStr s"

type_synonym params = "string \<rightharpoonup> param"

text \<open>
  The fragments of the \<open>SET\<close> clause that the handler can produce:
  \<open>Bind key\<close> is \<open>key = :key\<close>, \<open>ResolvedAtCase\<close> is
  \<open>resolved_at = CASE WHEN :status = 'closed' THEN NOW() ELSE NULL END\<close>, and
  \<open>UpdatedAtNow\<close> is \<open>updated_at = NOW()\<close>.
\<close>

datatype assignment = Bind string | ResolvedAtCase | UpdatedAtNow

text \<open>
  The loop over the dumped items: it appends to \<open>fields\<close> (written \<open>fields'\<close> here)
  and stores into \<open>values\<close>.
\<close>

fun build_set_clause ::
  "(string \<times> string option) list \<Rightarrow> assignment list \<times> params \<Rightarrow> assignment list \<times> params" where
  "build_set_clause [] (fields', values) = (fields', values)"
| "build_set_clause ((key, value) # items) (fields', values) =
     build_set_clause items (fields' @ [Bind key], values(key \<mapsto> to_param value))"

text \<open>
  What the database does with one fragment on one row. A text column takes a string or
  \<open>NULL\<close>. The statement fails (\<open>None\<close>) on a column that \<open>bugs\<close> does not have, on a
  parameter that is not bound and on an integer for a text column. In the \<open>CASE\<close>, the
  comparison of \<open>NULL\<close> with \<open>'closed'\<close> is not true, which selects \<open>ELSE NULL\<close>.
\<close>

definition set_column :: "string \<Rightarrow> string option \<Rightarrow> bug \<Rightarrow> bug option" where
  "set_column key v row =
     (if key = ''title'' then Some (row\<lparr>title := v\<rparr>)
      else if key = ''description'' then Some (row\<lparr>description := v\<rparr>)
      else if key = ''priority'' then Some (row\<lparr>priority := v\<rparr>)
      else if key = ''status'' then Some (row\<lparr>status := v\<rparr>)
      else None)"

fun assign :: "params \<Rightarrow> timestamp \<Rightarrow> assignment \<Rightarrow> bug \<Rightarrow> bug option" where
  "assign values now (Bind key) row =
     (case values key of
        Some (PStr v) \<Rightarrow> set_column key (Some v) row
      | Some PNone \<Rightarrow> set_column key None row
      | Some (PInt n) \<Rightarrow> None
      | None \<Rightarrow> None)"
| "assign values now ResolvedAtCase row =
     (case values ''status'' of
        Some (PStr s) \<Rightarrow>
          Some (row\<lparr>resolved_at := (if s = ''closed'' then Some now else None)\<rparr>)
      | Some PNone \<Rightarrow> Some (row\<lparr>resolved_at := None\<rparr>)
      | Some (PInt n) \<Rightarrow> None
      | None \<Rightarrow> None)"
| "assign values now UpdatedAtNow row = Some (row\<lparr>updated_at := now\<rparr>)"

text \<open>
  The whole \<open>SET\<close> clause on one row. No right-hand side reads a column, so the
  fragments can be applied one after the other.
\<close>

fun set_all :: "assignment list \<Rightarrow> params \<Rightarrow> timestamp \<Rightarrow> bug \<Rightarrow> bug option" where
  "set_all [] values now row = Some row"
| "set_all (a # as) values now row =
     (case assign values now a row of
        None \<Rightarrow> None
      | Some row' \<Rightarrow> set_all as values now row')"

text \<open>
  \<open>UPDATE ... WHERE ... RETURNING\<close>: every row that satisfies \<open>w\<close> is replaced by
  \<open>f\<close> of it; the result is the table afterwards and the rows returned.
\<close>

fun update_rows ::
  "(bug \<Rightarrow> bug option) \<Rightarrow> (bug \<Rightarrow> bool) \<Rightarrow> bug list \<Rightarrow> (bug list \<times> bug list) option" where
  "update_rows f w [] = Some ([], [])"
| "update_rows f w (b # bs) =
     (if w b then
        (case f b of
           None \<Rightarrow> None
         | Some b' \<Rightarrow>
             (case update_rows f w bs of
                None \<Rightarrow> None
              | Some (table, returned) \<Rightarrow> Some (b' # table, b' # returned)))
      else
        (case update_rows f w bs of
           None \<Rightarrow> None
         | Some (table, returned) \<Rightarrow> Some (b # table, returned)))"

definition sql_update ::
  "assignment list \<Rightarrow> params \<Rightarrow> timestamp \<Rightarrow> bug list \<Rightarrow> (bug list \<times> bug list) option" where
  "sql_update fields' values now table =
     (case values ''bug_id'' of
        Some (PInt i) \<Rightarrow> update_rows (set_all fields' values now) (\<lambda>b. bug_id b = i) table
      | Some (PStr s) \<Rightarrow> None
      | Some PNone \<Rightarrow> Some (table, [])
      | None \<Rightarrow> None)"

text \<open>
  \<open>PATCH /bugs/{bug_id}\<close>. The transaction of \<open>engine.begin()\<close> commits when its
  block is left, before the handler looks at the returned row.
\<close>

definition update_bug :: "int \<Rightarrow> BugUpdate \<Rightarrow> timestamp \<Rightarrow> db \<Rightarrow> (error + nat \<times> bug) \<times> db" where
  "update_bug i payload now d =
     (case build_set_clause (exclude_none (model_dump payload)) ([], [''bug_id'' \<mapsto> PInt i]) of
        (fields', values) \<Rightarrow>
          if fields' = [] then (Inl (HTTPException 400 ''No fields provided for update''), d)
          else
            (case sql_update
                    ((if values ''status'' \<noteq> None then fields' @ [ResolvedAtCase] else fields')
                       @ [UpdatedAtNow])
                    values now (bugs d) of
               None \<Rightarrow> (Inl DatabaseError, d)
             | Some (table, []) \<Rightarrow> (Inl (HTTPException 404 ''Bug not found''), d\<lparr>bugs := table\<rparr>)
             | Some (table, row # rest) \<Rightarrow> (Inr (200, row), d\<lparr>bugs := table\<rparr>)))"

subsection \<open>Comments\<close>

text \<open>
  \<open>POST /bugs/{bug_id}/comments\<close>: a \<open>SELECT 1\<close> for the parent bug, then the
  \<open>INSERT\<close>.

  Modelled from the spec: the \<open>INSERT\<close> names neither \<open>comment_id\<close> nor
  \<open>created_at\<close>, and the DDL that fills them is not part of the repository. The spec
  says the comment is inserted with the current timestamp, so \<open>created_at\<close> is the
  transaction time here.
\<close>

definition add_comment ::
  "int \<Rightarrow> CommentCreate \<Rightarrow> timestamp \<Rightarrow> db \<Rightarrow> (error + nat \<times> comment) \<times> db" where
  "add_comment i payload now d =
     (case find (\<lambda>b. bug_id b = i) (bugs d) of
        None \<Rightarrow> (Inl (HTTPException 404 ''Bug not found''), d)
      | Some exists \<Rightarrow>
          (let row = \<lparr>comment_id = bug_comments_seq d,
                      comment_bug_id = i,
                      author = cc_author payload,
                      comment_text = cc_comment payload,
                      comment_created_at = now\<rparr>
           in (Inr (201, row),
               d\<lparr>bug_comments := bug_comments d @ [row],
                 bug_comments_seq := bug_comments_seq d + 1\<rparr>)))"

text \<open>\<open>GET /bugs/{bug_id}/comments\<close>: \<open>WHERE bug_id = :bug_id ORDER BY created_at ASC\<close>.\<close>

definition list_comments :: "int \<Rightarrow> db \<Rightarrow> comment list" where
  "list_comments i d = sort_key comment_created_at (filter (\<lambda>c. comment_bug_id c = i) (bug_comments d))"

subsection \<open>Endpoints: schema validation, then the handler\<close>

definition POST_bugs :: "body_bug \<Rightarrow> timestamp \<Rightarrow> db \<Rightarrow> (error + nat \<times> bug) \<times> db" where
  "POST_bugs body now d =
     (case validate_BugCreate body of
        Inl e \<Rightarrow> (Inl e, d)
      | Inr payload \<Rightarrow> create_bug payload now d)"

definition PATCH_bug :: "int \<Rightarrow> body_bug \<Rightarrow> timestamp \<Rightarrow> db \<Rightarrow> (error + nat \<times> bug) \<times> db" where
  "PATCH_bug i body now d =
     (case validate_BugUpdate body of
        Inl e \<Rightarrow> (Inl e, d)
      | Inr payload \<Rightarrow> update_bug i payload now d)"

definition POST_comments ::
  "int \<Rightarrow> body_comment \<Rightarrow> timestamp \<Rightarrow> db \<Rightarrow> (error + nat \<times> comment) \<times> db" where
  "POST_comments i body now d =
     (case validate_CommentCreate body of
        Inl e \<Rightarrow> (Inl e, d)
      | Inr payload \<Rightarrow> add_comment i payload now d)"

text \<open>
  The requests that write, each with the time at which the database runs it, and the
  database after a sequence of them. The \<open>GET\<close> endpoints leave the tables as they are.
\<close>

datatype request =
  PostBugs body_bug timestamp
| PatchBug int body_bug timestamp
| PostComments int body_comment timestamp

fun serve :: "request \<Rightarrow> db \<Rightarrow> db" where
  "serve (PostBugs body now) d = snd (POST_bugs body now d)"
| "serve (PatchBug i body now) d = snd (PATCH_bug i body now d)"
| "serve (PostComments i body now) d = snd (POST_comments i body now d)"

definition run :: "request list \<Rightarrow> db \<Rightarrow> db" where
  "run requests d = fold serve requests d"


subsection \<open>Statements: predicates and the closed form of the UPDATE\<close>

text \<open>
  The payload of a \<open>PATCH\<close> supplies a field when its value is not \<open>None\<close>; a bug
  with a given identifier exists when some row of \<open>bugs\<close> carries it.
\<close>

definition supplies :: "BugUpdate \<Rightarrow> bool" where
  "supplies payload =
     (bu_title payload \<noteq> None \<or> bu_description payload \<noteq> None \<or>
      bu_priority payload \<noteq> None \<or> bu_status payload \<noteq> None)"

definition bug_exists :: "int \<Rightarrow> db \<Rightarrow> bool" where
  "bug_exists i d = list_ex (\<lambda>b. bug_id b = i) (bugs d)"

text \<open>
  The row that the \<open>SET\<close> clause built for a payload leaves behind, written as one
  record update. It is a consequence of the definitions above (lemma
  \<open>set_clause_patched\<close>), not a part of the model.
\<close>

definition patched :: "BugUpdate \<Rightarrow> timestamp \<Rightarrow> bug \<Rightarrow> bug" where
  "patched payload now row =
     row\<lparr>title := (case bu_title payload of None \<Rightarrow> title row | Some v \<Rightarrow> Some v),
         description := (case bu_description payload of None \<Rightarrow> description row | Some v \<Rightarrow> Some v),
         priority := (case bu_priority payload of None \<Rightarrow> priority row | Some v \<Rightarrow> Some v),
         status := (case bu_status payload of None \<Rightarrow> status row | Some v \<Rightarrow> Some v),
         resolved_at := (case bu_status payload of None \<Rightarrow> resolved_at row
                         | Some v \<Rightarrow> if v = ''closed'' then Some now else None),
         updated_at := now\<rparr>"

text \<open>
  The invariant of section 3 of the specification on one row and on the table:
  \<open>resolved_at\<close> is not null exactly when \<open>status\<close> is \<open>closed\<close>.
\<close>

definition resolved_iff_closed :: "bug \<Rightarrow> bool" where
  "resolved_iff_closed b = ((resolved_at b \<noteq> None) = (status b = Some ''closed''))"

definition bugs_inv :: "db \<Rightarrow> bool" where
  "bugs_inv d = list_all resolved_iff_closed (bugs d)"

text \<open>
  The identifiers in \<open>bugs\<close> are pairwise different and below the counter: what a
  primary key filled from a sequence guarantees.
\<close>

definition ids_below_seq :: "db \<Rightarrow> bool" where
  "ids_below_seq d = (distinct (map bug_id (bugs d)) \<and> list_all (\<lambda>b. bug_id b < bugs_seq d) (bugs d))"

text \<open>
  Between a row and its successor, no updatable column has gone from a value to
  \<open>NULL\<close>. A member of a body that is \<open>null\<close> or absent.
\<close>

definition no_null_written :: "bug \<Rightarrow> bug \<Rightarrow> bool" where
  "no_null_written b b' =
     ((title b' = None \<longrightarrow> title b = None) \<and>
      (description b' = None \<longrightarrow> description b = None) \<and>
      (priority b' = None \<longrightarrow> priority b = None) \<and>
      (status b' = None \<longrightarrow> status b = None))"

definition null_or_absent :: "json \<Rightarrow> bool" where
  "null_or_absent j = (j = JNull \<or> j = Absent)"

subsection \<open>Sample data\<close>

definition example_bug :: bug where
  "example_bug =
     \<lparr>bug_id = 1, title = Some ''Crash on save'', description = Some ''Editor crashes'',
      priority = Some ''high'', status = Some ''closed'', created_at = 3, updated_at = 5,
      resolved_at = Some 5\<rparr>"

definition example_db :: db where
  "example_db = \<lparr>bugs = [example_bug], bug_comments = [], bugs_seq = 2, bug_comments_seq = 1\<rparr>"

definition three_bugs :: db where
  "three_bugs =
     \<lparr>bugs = [example_bug, example_bug\<lparr>bug_id := 3\<rparr>, example_bug\<lparr>bug_id := 2\<rparr>],
      bug_comments = [], bugs_seq = 4, bug_comments_seq = 1\<rparr>"

definition empty_body :: body_bug where
  "empty_body =
     \<lparr>body_title = Absent, body_description = Absent, body_priority = Absent, body_status = Absent\<rparr>"

definition null_body :: body_bug where
  "null_body =
     \<lparr>body_title = JNull, body_description = JNull, body_priority = JNull, body_status = JNull\<rparr>"

definition reopen_body :: body_bug where
  "reopen_body = empty_body\<lparr>body_status := JStr ''open''\<rparr>"

definition report_body :: body_bug where
  "report_body =
     \<lparr>body_title = JStr ''Login fails'', body_description = JStr ''Wrong password accepted'',
      body_priority = JStr ''critical'', body_status = Absent\<rparr>"


definition empty_update :: BugUpdate where
  "empty_update = \<lparr>bu_title = None, bu_description = None, bu_priority = None, bu_status = None\<rparr>"

definition reopen :: BugUpdate where
  "reopen = empty_update\<lparr>bu_status := Some ''open''\<rparr>"

definition report :: BugCreate where
  "report =
     \<lparr>bc_title = ''Login fails'', bc_description = ''Wrong password accepted'',
      bc_priority = ''critical'', bc_status = ''open''\<rparr>"


definition two_comments :: db where
  "two_comments =
     example_db\<lparr>bug_comments :=
       [\<lparr>comment_id = 1, comment_bug_id = 1, author = ''ana'', comment_text = ''later'',
          comment_created_at = 8\<rparr>,
        \<lparr>comment_id = 2, comment_bug_id = 2, author = ''bo'', comment_text = ''other bug'',
          comment_created_at = 6\<rparr>,
        \<lparr>comment_id = 3, comment_bug_id = 1, author = ''cy'', comment_text = ''earlier'',
          comment_created_at = 4\<rparr>]\<rparr>"

section \<open>Properties\<close>

subsection \<open>The UPDATE in closed form\<close>

lemma update_rows_total:
  "\<forall>b. f b = Some (g b) \<Longrightarrow>
   update_rows f w bs = Some (map (\<lambda>b. if w b then g b else b) bs, map g (filter w bs))"
  by (induction bs) auto

lemma build_empty:
  "\<not> supplies payload \<Longrightarrow>
   fst (build_set_clause (exclude_none (model_dump payload)) ([], vs)) = []"
  by (simp add: supplies_def model_dump_def exclude_none_def)

lemma set_clause_patched:
  assumes "build_set_clause (exclude_none (model_dump payload)) ([], [''bug_id'' \<mapsto> PInt i]) = (fs, vs)"
    and "supplies payload"
  shows "fs \<noteq> [] \<and> vs ''bug_id'' = Some (PInt i) \<and>
     set_all ((if vs ''status'' \<noteq> None then fs @ [ResolvedAtCase] else fs) @ [UpdatedAtNow]) vs now row
       = Some (patched payload now row)"
  using assms
  by (cases "bu_title payload"; cases "bu_description payload"; cases "bu_priority payload";
      cases "bu_status payload")
     (auto simp: supplies_def model_dump_def exclude_none_def patched_def set_column_def)

text \<open>
  \<open>update_bug\<close> never ends in \<open>DatabaseError\<close>: it answers 400 for a payload that
  supplies nothing, 404 when no row matches, and otherwise returns the first patched row
  and patches every row with the identifier.
\<close>

lemma update_bug_eq:
  "update_bug i payload now d =
     (if \<not> supplies payload then (Inl (HTTPException 400 ''No fields provided for update''), d)
      else case filter (\<lambda>b. bug_id b = i) (bugs d) of
             [] \<Rightarrow> (Inl (HTTPException 404 ''Bug not found''), d)
           | row # rest \<Rightarrow>
               (Inr (200, patched payload now row),
                d\<lparr>bugs := map (\<lambda>b. if bug_id b = i then patched payload now b else b) (bugs d)\<rparr>))"
proof (cases "supplies payload")
  case False
  then show ?thesis
    using build_empty [OF False, of "[''bug_id'' \<mapsto> PInt i]"]
    by (auto simp: update_bug_def split: prod.splits)
next
  case True
  obtain fs vs where b: "build_set_clause (exclude_none (model_dump payload)) ([], [''bug_id'' \<mapsto> PInt i]) = (fs, vs)"
    by (cases "build_set_clause (exclude_none (model_dump payload)) ([], [''bug_id'' \<mapsto> PInt i])")
  let ?fs = "(if vs ''status'' \<noteq> None then fs @ [ResolvedAtCase] else fs) @ [UpdatedAtNow]"
  from set_clause_patched [OF b True]
  have ne: "fs \<noteq> []" and id: "vs ''bug_id'' = Some (PInt i)"
    and sa: "\<forall>row. set_all ?fs vs now row = Some (patched payload now row)"
    by blast+
  have upd: "sql_update ?fs vs now (bugs d) =
      Some (map (\<lambda>b. if bug_id b = i then patched payload now b else b) (bugs d),
            map (patched payload now) (filter (\<lambda>b. bug_id b = i) (bugs d)))"
    unfolding sql_update_def id using update_rows_total [OF sa] by simp
  have same: "filter (\<lambda>b. bug_id b = i) (bugs d) = [] \<Longrightarrow>
      map (\<lambda>b. if bug_id b = i then patched payload now b else b) (bugs d) = bugs d"
    by (induction "bugs d") (auto simp: filter_empty_conv map_idI)
  show ?thesis
    unfolding update_bug_def b using True ne upd same
    by (auto split: list.splits)
qed

lemma patched_bug_id: "bug_id (patched payload now b) = bug_id b"
  by (simp add: patched_def)


lemma not_exists_filter:
  "\<not> bug_exists i d \<Longrightarrow> filter (\<lambda>b. bug_id b = i) (bugs d) = []"
  by (auto simp: bug_exists_def list_ex_iff filter_empty_conv)

lemma get_bug_not_found:
  "\<not> bug_exists i d \<Longrightarrow> get_bug i d = Inl (HTTPException 404 ''Bug not found'')"
  by (simp add: get_bug_def not_exists_filter)

subsection \<open>Sample requests pass their schemas\<close>


lemma empty_valid: "validate_BugUpdate empty_body = Inr empty_update"
  by (simp add: validate_BugUpdate_def empty_body_def empty_update_def)


subsection \<open>The invariant on resolved_at\<close>

lemma patched_inv: "resolved_iff_closed b \<Longrightarrow> resolved_iff_closed (patched payload now b)"
  by (auto simp: resolved_iff_closed_def patched_def split: option.splits)

lemma create_bug_inv: "bugs_inv d \<Longrightarrow> bugs_inv (snd (create_bug payload now d))"
  by (simp add: bugs_inv_def create_bug_def Let_def resolved_iff_closed_def)

lemma update_bug_inv: "bugs_inv d \<Longrightarrow> bugs_inv (snd (update_bug i payload now d))"
  by (auto simp: update_bug_eq bugs_inv_def list_all_iff patched_inv split: list.splits)

lemma add_comment_bugs: "bugs (snd (add_comment i payload now d)) = bugs d"
  by (simp add: add_comment_def Let_def split: option.splits)

lemma add_comment_inv: "bugs_inv d \<Longrightarrow> bugs_inv (snd (add_comment i payload now d))"
  by (simp add: bugs_inv_def add_comment_bugs)

lemma serve_inv: "bugs_inv d \<Longrightarrow> bugs_inv (serve r d)"
  by (cases r)
     (auto simp: POST_bugs_def PATCH_bug_def POST_comments_def create_bug_inv update_bug_inv
        add_comment_inv split: sum.splits)

lemma fold_serve_inv: "bugs_inv d \<Longrightarrow> bugs_inv (fold serve rs d)"
  by (induction rs arbitrary: d) (simp_all add: serve_inv)

lemma init_inv: "bugs_inv init_db"
  by (simp add: bugs_inv_def init_db_def)

text \<open>
  Claim C1. In every database reached from the empty one by requests, each bug has
  \<open>resolved_at\<close> non-null if and only if its \<open>status\<close> is \<open>closed\<close>. Creation
  establishes this for the row it inserts, and creation and every partial update,
  whether or not it mentions \<open>status\<close>, preserve it on the whole table.
\<close>

theorem resolved_at_iff_closed_invariant:
  "bugs_inv (run requests init_db) \<and>
   (\<forall>code row. fst (create_bug payload now d) = Inr (code, row) \<longrightarrow> resolved_iff_closed row) \<and>
   (bugs_inv d \<longrightarrow>
      bugs_inv (snd (create_bug payload now d)) \<and> bugs_inv (snd (update_bug i patch now d)))"
  by (auto simp: run_def fold_serve_inv init_inv create_bug_inv update_bug_inv)
     (simp add: create_bug_def Let_def resolved_iff_closed_def)

theorem resolved_at_iff_closed_invariant_witness:
  "bugs_inv (run [PostBugs report_body 7, PatchBug 1 reopen_body 9] init_db) \<and>
   bugs_inv example_db \<and>
   bugs_inv (snd (create_bug report 7 example_db)) \<and>
   bugs_inv (snd (update_bug 1 reopen 7 example_db)) \<and>
   map (\<lambda>b. (status b, resolved_at b)) (bugs example_db) = [(Some ''closed'', Some 5)] \<and>
   map (\<lambda>b. (status b, resolved_at b)) (bugs (snd (update_bug 1 reopen 7 example_db))) =
     [(Some ''open'', None)]"
proof -
  have "bugs_inv example_db"
    by (simp add: bugs_inv_def example_db_def example_bug_def resolved_iff_closed_def)
  moreover have
    "map (\<lambda>b. (status b, resolved_at b)) (bugs example_db) = [(Some ''closed'', Some 5)]"
    "map (\<lambda>b. (status b, resolved_at b)) (bugs (snd (update_bug 1 reopen 7 example_db))) =
       [(Some ''open'', None)]"
    by (simp_all add: update_bug_eq supplies_def reopen_def empty_update_def patched_def
        example_db_def example_bug_def)
  ultimately show ?thesis
    using resolved_at_iff_closed_invariant
      [of "[PostBugs report_body 7, PatchBug 1 reopen_body 9]" report 7 example_db 1 reopen]
    by blast
qed

subsection \<open>PATCH with a status\<close>



subsection \<open>POST /bugs\<close>



subsection \<open>The frame of PATCH\<close>




subsection \<open>The error responses of PATCH\<close>



subsection \<open>POST /bugs/{bug_id}/comments\<close>



subsection \<open>GET /bugs\<close>

lemma desc_sorted:
  "sorted (map (\<lambda>b. - bug_id b) xs) = sorted_wrt (\<lambda>x y. x \<ge> y) (map bug_id xs)"
  by (simp add: sorted_wrt_map)

lemma desc_strict:
  fixes ks :: "int list"
  shows "distinct ks \<Longrightarrow> sorted_wrt (\<lambda>x y. x \<ge> y) ks \<Longrightarrow> sorted_wrt (\<lambda>x y. x > y) ks"
  by (induction ks) (auto simp: less_le)

lemma list_bugs_perm: "mset (list_bugs d) = mset (bugs d)"
  by (simp add: list_bugs_def)

lemma list_bugs_desc: "sorted_wrt (\<lambda>x y. x \<ge> y) (map bug_id (list_bugs d))"
  unfolding list_bugs_def desc_sorted [symmetric] by (rule sorted_sort_key)

lemma list_bugs_distinct:
  "distinct (map bug_id (bugs d)) \<Longrightarrow> distinct (map bug_id (list_bugs d))"
proof -
  have "mset (map bug_id (list_bugs d)) = mset (map bug_id (bugs d))"
    by (simp add: list_bugs_def)
  then show "distinct (map bug_id (bugs d)) \<Longrightarrow> distinct (map bug_id (list_bugs d))"
    using mset_eq_imp_distinct_iff by blast
qed

lemma create_bug_ids: "ids_below_seq d \<Longrightarrow> ids_below_seq (snd (create_bug payload now d))"
  by (auto simp: ids_below_seq_def create_bug_def Let_def list_all_iff)

lemma update_bug_ids_same:
  "map bug_id (bugs (snd (update_bug i payload now d))) = map bug_id (bugs d) \<and>
   bugs_seq (snd (update_bug i payload now d)) = bugs_seq d"
  by (auto simp: update_bug_eq patched_bug_id split: list.splits)

lemma update_bug_ids: "ids_below_seq d \<Longrightarrow> ids_below_seq (snd (update_bug i payload now d))"
proof -
  assume a: "ids_below_seq d"
  let ?d = "snd (update_bug i payload now d)"
  have m: "map bug_id (bugs ?d) = map bug_id (bugs d)" and s: "bugs_seq ?d = bugs_seq d"
    using update_bug_ids_same by blast+
  have "list_all (\<lambda>b. bug_id b < bugs_seq d) (bugs d) = list_all (\<lambda>k. k < bugs_seq d) (map bug_id (bugs d))"
    by (simp add: list_all_iff)
  moreover have "list_all (\<lambda>b. bug_id b < bugs_seq ?d) (bugs ?d) = list_all (\<lambda>k. k < bugs_seq ?d) (map bug_id (bugs ?d))"
    by (simp add: list_all_iff)
  ultimately show ?thesis using a unfolding ids_below_seq_def m s by simp
qed

lemma add_comment_ids: "ids_below_seq d \<Longrightarrow> ids_below_seq (snd (add_comment i payload now d))"
  by (simp add: ids_below_seq_def add_comment_def Let_def split: option.splits)

lemma serve_ids: "ids_below_seq d \<Longrightarrow> ids_below_seq (serve r d)"
  by (cases r)
     (auto simp: POST_bugs_def PATCH_bug_def POST_comments_def create_bug_ids update_bug_ids
        add_comment_ids split: sum.splits)

lemma fold_serve_ids: "ids_below_seq d \<Longrightarrow> ids_below_seq (fold serve rs d)"
  by (induction rs arbitrary: d) (simp_all add: serve_ids)

lemma run_ids_distinct: "distinct (map bug_id (bugs (run requests init_db)))"
proof -
  have "ids_below_seq init_db" by (simp add: ids_below_seq_def init_db_def)
  then have "ids_below_seq (run requests init_db)"
    unfolding run_def by (rule fold_serve_ids)
  then show ?thesis by (simp add: ids_below_seq_def)
qed

text \<open>
  Claim C7. \<open>GET /bugs\<close> returns all rows of \<open>bugs\<close>, each once, by descending
  identifier. The order is strict whenever the identifiers of the table are pairwise
  different, as those of a key are, and so in every database reached from the empty one
  by requests.
\<close>

theorem list_bugs_descending:
  "mset (list_bugs d) = mset (bugs d) \<and>
   sorted_wrt (\<lambda>x y. x \<ge> y) (map bug_id (list_bugs d)) \<and>
   (distinct (map bug_id (bugs d)) \<longrightarrow> sorted_wrt (\<lambda>x y. x > y) (map bug_id (list_bugs d))) \<and>
   sorted_wrt (\<lambda>x y. x > y) (map bug_id (list_bugs (run requests init_db)))"
  using list_bugs_perm list_bugs_desc desc_strict list_bugs_distinct run_ids_distinct
  by blast

theorem list_bugs_descending_witness:
  "distinct (map bug_id (bugs three_bugs)) \<and> map bug_id (bugs three_bugs) = [1, 3, 2] \<and>
   map bug_id (list_bugs three_bugs) = [3, 2, 1] \<and>
   sorted_wrt (\<lambda>x y. x > y) (map bug_id (list_bugs three_bugs))"
proof -
  have h: "distinct (map bug_id (bugs three_bugs))"
    by (simp add: three_bugs_def example_bug_def)
  have e: "map bug_id (list_bugs three_bugs) = [3, 2, 1]"
    by (simp add: list_bugs_def three_bugs_def example_bug_def)
  from list_bugs_descending [of three_bugs "[]"] h e
  show ?thesis by (simp add: three_bugs_def example_bug_def)
qed

subsection \<open>GET /bugs/{bug_id}/comments\<close>

text \<open>
  Claim C8. \<open>GET /bugs/{bug_id}/comments\<close> returns exactly the comments whose
  owning bug identifier is the one asked for, each as often as the table holds it, by
  ascending creation time.
\<close>

theorem list_comments_filtered_ascending:
  "mset (list_comments i d) = filter_mset (\<lambda>c. comment_bug_id c = i) (mset (bug_comments d)) \<and>
   sorted (map comment_created_at (list_comments i d))"
  by (simp add: list_comments_def)

theorem list_comments_filtered_ascending_witness:
  "map comment_id (list_comments 1 two_comments) = [3, 1] \<and>
   sorted (map comment_created_at (list_comments 1 two_comments))"
  using list_comments_filtered_ascending [of 1 two_comments]
  by (simp add: list_comments_def two_comments_def example_db_def)

subsection \<open>The default status of POST /bugs\<close>



subsection \<open>Null members of a PATCH body\<close>

lemma null_body_validates:
  assumes "null_or_absent (body_title body)" "null_or_absent (body_description body)"
    "null_or_absent (body_priority body)" "null_or_absent (body_status body)"
  shows "validate_BugUpdate body = Inr empty_update"
  using assms by (auto simp: null_or_absent_def validate_BugUpdate_def empty_update_def)

lemma patched_no_null: "no_null_written b (patched payload now b)"
  by (simp add: no_null_written_def patched_def split: option.splits)

lemma no_null_same: "no_null_written b b"
  by (simp add: no_null_written_def)

lemma update_bug_no_null:
  "list_all2 no_null_written (bugs d) (bugs (snd (update_bug i payload now d)))"
  by (auto simp: update_bug_eq list_all2_map2 list_all2_same patched_no_null no_null_same
      split: list.splits)

text \<open>
  Claim C10. A \<open>PATCH\<close> body whose four members are each \<open>null\<close> (or absent) is
  answered like the empty body, with 400 and the database unchanged. And whatever the
  body of a \<open>PATCH\<close>, no row has afterwards a null \<open>title\<close>, \<open>description\<close>,
  \<open>priority\<close> or \<open>status\<close> where it had a value before.
\<close>

theorem patch_null_is_empty:
  "(null_or_absent (body_title body) \<and> null_or_absent (body_description body) \<and>
    null_or_absent (body_priority body) \<and> null_or_absent (body_status body) \<longrightarrow>
      PATCH_bug i body now d = PATCH_bug i empty_body now d \<and>
      PATCH_bug i body now d = (Inl (HTTPException 400 ''No fields provided for update''), d)) \<and>
   list_all2 no_null_written (bugs d) (bugs (snd (PATCH_bug i body' now d)))"
proof -
  have e: "PATCH_bug i empty_body now d = (Inl (HTTPException 400 ''No fields provided for update''), d)"
    by (simp add: PATCH_bug_def empty_valid update_bug_eq supplies_def empty_update_def)
  have n: "null_or_absent (body_title body) \<and> null_or_absent (body_description body) \<and>
    null_or_absent (body_priority body) \<and> null_or_absent (body_status body) \<Longrightarrow>
      PATCH_bug i body now d = (Inl (HTTPException 400 ''No fields provided for update''), d)"
    by (simp add: PATCH_bug_def null_body_validates update_bug_eq supplies_def empty_update_def)
  have r: "list_all2 no_null_written (bugs d) (bugs d)"
    by (simp add: list_all2_same no_null_same)
  have "list_all2 no_null_written (bugs d) (bugs (snd (PATCH_bug i body' now d)))"
    using update_bug_no_null r by (simp add: PATCH_bug_def split: sum.splits)
  with e n show ?thesis by simp
qed

theorem patch_null_is_empty_witness:
  "PATCH_bug 1 null_body 99 example_db = PATCH_bug 1 empty_body 99 example_db \<and>
   PATCH_bug 1 null_body 99 example_db =
     (Inl (HTTPException 400 ''No fields provided for update''), example_db) \<and>
   map status (bugs (snd (PATCH_bug 1 (null_body\<lparr>body_title := JStr ''Crash on exit''\<rparr>) 99 example_db)))
     = [Some ''closed'']"
proof -
  have h: "null_or_absent (body_title null_body) \<and> null_or_absent (body_description null_body) \<and>
    null_or_absent (body_priority null_body) \<and> null_or_absent (body_status null_body)"
    by (simp add: null_or_absent_def null_body_def)
  have v: "validate_BugUpdate (null_body\<lparr>body_title := JStr ''Crash on exit''\<rparr>) =
      Inr (empty_update\<lparr>bu_title := Some ''Crash on exit''\<rparr>)"
    by (simp add: validate_BugUpdate_def null_body_def empty_update_def length_between_def)
  have s: "map status (bugs (snd (PATCH_bug 1 (null_body\<lparr>body_title := JStr ''Crash on exit''\<rparr>) 99 example_db)))
     = [Some ''closed'']"
    by (simp add: PATCH_bug_def v update_bug_eq supplies_def empty_update_def example_db_def
        example_bug_def patched_def)
  from patch_null_is_empty [of null_body 1 99 example_db] h s
  show ?thesis by blast
qed

end
